theory Spec2Isabelle
  imports Complex_Main "HOL-Library.AList" "HOL-Library.Sublist"
begin

section \<open>Python runtime notions used by the sources\<close>

text \<open>
  A Python \<open>str\<close> is modelled as \<open>string\<close>, one \<open>char\<close> per character (the Latin-1
  range of code points), \<open>len\<close> as \<open>length\<close>, a Python \<open>int\<close> as \<open>int\<close>,
  and a Python \<open>float\<close> as \<open>real\<close> (an ordered field without NaN and rounding).
  An exception is a value of \<open>exn\<close> on the left of a sum.
\<close>

datatype exn = IndexError | Failure string | ValidationError string

text \<open>\<open>str.isspace\<close> on one character: the white space of the Latin-1 range.\<close>

definition isspace :: "char \<Rightarrow> bool" where
  "isspace c = (let n = (of_char c :: nat)
                in (9 \<le> n \<and> n \<le> 13) \<or> (28 \<le> n \<and> n \<le> 32) \<or> n = 133 \<or> n = 160)"

text \<open>\<open>s.strip()\<close>: leading and trailing white space removed.\<close>

definition strip :: "string \<Rightarrow> string" where
  "strip s = rev (dropWhile isspace (rev (dropWhile isspace s)))"

text \<open>
  The bounds of a slice \<open>xs[i:j]\<close>: a negative bound counts from the end, and every bound
  is clamped into \<open>0..len(xs)\<close>.
\<close>

definition slice_bound :: "nat \<Rightarrow> int \<Rightarrow> nat" where
  "slice_bound n i = (if i < 0 then nat (int n + i) else min n (nat i))"

definition py_slice :: "'a list \<Rightarrow> int \<Rightarrow> int \<Rightarrow> 'a list" where
  "py_slice xs i j =
     (let a = slice_bound (length xs) i; b = slice_bound (length xs) j
      in take (b - a) (drop a xs))"

text \<open>\<open>xs[i]\<close>: a negative index counts from the end; out of range raises IndexError.\<close>

definition py_index :: "'a list \<Rightarrow> int \<Rightarrow> exn + 'a" where
  "py_index xs i =
     (let n = int (length xs); k = (if i < 0 then i + n else i)
      in if k < 0 \<or> n \<le> k then Inl IndexError else Inr (xs ! nat k))"

text \<open>
  \<open>text.rfind(c, i, j)\<close> for a one-character \<open>c\<close>: the highest position in the slice
  bounds holding \<open>c\<close>, or \<open>-1\<close>.
\<close>

definition py_rfind :: "string \<Rightarrow> char \<Rightarrow> int \<Rightarrow> int \<Rightarrow> int" where
  "py_rfind text c i j =
     (let a = slice_bound (length text) i; b = slice_bound (length text) j
      in case filter (\<lambda>k. text ! k = c) (rev [a..<b]) of
           [] \<Rightarrow> - 1
         | k # _ \<Rightarrow> int k)"

text \<open>\<open>str(n)\<close> for a natural number and for an integer, in decimal.\<close>

fun str_nat :: "nat \<Rightarrow> string" where
  "str_nat n =
     (if n < 10 then [''0123456789'' ! n]
      else str_nat (n div 10) @ [''0123456789'' ! (n mod 10)])"

declare str_nat.simps [simp del]

definition str_int :: "int \<Rightarrow> string" where
  "str_int i = (if i < 0 then CHR ''-'' # str_nat (nat (- i)) else str_nat (nat i))"

text \<open>\<open>sep.join(parts)\<close>.\<close>

fun join :: "string \<Rightarrow> string list \<Rightarrow> string" where
  "join sep [] = []"
| "join sep [p] = p"
| "join sep (p # q # ps) = p @ sep @ join sep (q # ps)"

text \<open>\<open>s.split(c)\<close> for a one-character separator: at least one component.\<close>

fun split_on :: "char \<Rightarrow> string \<Rightarrow> string list" where
  "split_on sep [] = [[]]"
| "split_on sep (c # cs) =
     (if c = sep then [] # split_on sep cs
      else (c # hd (split_on sep cs)) # tl (split_on sep cs))"

text \<open>
  \<open>list(dict.fromkeys(keys))\<close>: a dict keeps its keys in insertion order, and storing
  a key that is already present leaves its position unchanged.
\<close>

definition dict_fromkeys :: "'a list \<Rightarrow> 'a list" where
  "dict_fromkeys keys = fold (\<lambda>k d. if k \<in> set d then d else d @ [k]) keys []"

text \<open>
  What the sources leave to the Python runtime: the order in which \<open>list(set(xs))\<close>
  yields the elements of the set built from \<open>xs\<close> (hash order, not fixed by the
  language), and the rendering \<open>f"{x:.3f}"\<close> of a float.
\<close>

record runtime =
  set_iteration :: "string list \<Rightarrow> string list"
  format_3f :: "real \<Rightarrow> string"

text \<open>The contract of a set: every element of \<open>xs\<close> once, nothing else.\<close>

definition set_contract :: "runtime \<Rightarrow> bool" where
  "set_contract rt = (\<forall>xs. distinct (set_iteration rt xs) \<and> set (set_iteration rt xs) = set xs)"

section \<open>retrieval/config.py\<close>

definition TOP_K_RESULTS :: int where "TOP_K_RESULTS = 5"
definition MIN_SIMILARITY_SCORE :: real where "MIN_SIMILARITY_SCORE = 5 / 10"
definition EMBEDDING_MODEL :: string where "EMBEDDING_MODEL = ''text-embedding-3-small''"
definition COLLECTION_NAME :: string where "COLLECTION_NAME = ''retail_operations_docs''"

definition CHUNK_SIZE :: int where "CHUNK_SIZE = 1000"
definition CHUNK_OVERLAP :: int where "CHUNK_OVERLAP = 200"
definition MIN_CHUNK_SIZE :: nat where "MIN_CHUNK_SIZE = 100"

section \<open>retrieval/ingestion.py: chunk_text\<close>

text \<open>
  One pass through the body of the \<open>while\<close> loop of \<open>chunk_text\<close>, from the window start
  \<open>start\<close> and the chunks collected so far to the next start and the extended list.
  The test \<open>text[end] != " "\<close> is only evaluated when \<open>end < text_length\<close>; it raises
  when \<open>end\<close> lies below \<open>-text_length\<close>.
\<close>

definition chunk_body ::
  "string \<Rightarrow> int \<Rightarrow> int \<Rightarrow> int \<times> string list \<Rightarrow> exn + int \<times> string list" where
  "chunk_body text chunk_size chunk_overlap st =
     (let start = fst st; chunks = snd st;
          end0 = start + chunk_size;
          mid_word =
            (if end0 < int (length text)
             then (case py_index text end0 of
                     Inl e \<Rightarrow> Inl e
                   | Inr ch \<Rightarrow> Inr (ch \<noteq> CHR '' ''))
             else Inr False)
      in case mid_word of
           Inl e \<Rightarrow> Inl e
         | Inr retract \<Rightarrow>
             (let end1 =
                    (if retract
                     then (let last_space = py_rfind text CHR '' '' start end0
                           in if last_space > start then last_space else end0)
                     else end0);
                  chunk = py_slice text start end1;
                  chunks1 =
                    (if length (strip chunk) \<ge> MIN_CHUNK_SIZE
                     then chunks @ [strip chunk] else chunks)
              in Inr (start + (chunk_size - chunk_overlap), chunks1)))"

text \<open>
  The loop \<open>while start < text_length\<close>. It need not end (a step
  \<open>chunk_size - chunk_overlap\<close> that is not positive never reaches the end of the text),
  so not returning is the value \<open>None\<close>.
\<close>

partial_function (option) chunk_loop ::
  "string \<Rightarrow> int \<Rightarrow> int \<Rightarrow> int \<times> string list \<Rightarrow> (exn + string list) option" where
  "chunk_loop text chunk_size chunk_overlap st =
     (if fst st < int (length text)
      then (case chunk_body text chunk_size chunk_overlap st of
              Inl e \<Rightarrow> Some (Inl e)
            | Inr st' \<Rightarrow> chunk_loop text chunk_size chunk_overlap st')
      else Some (Inr (snd st)))"

declare chunk_loop.simps [code]

definition chunk_text :: "string \<Rightarrow> int \<Rightarrow> int \<Rightarrow> (exn + string list) option" where
  "chunk_text text chunk_size chunk_overlap = chunk_loop text chunk_size chunk_overlap (0, [])"

section \<open>retrieval/retrieval.py\<close>

text \<open>
  The metadata dict stored with a chunk (\<open>index_chunks\<close> of retrieval/indexing.py): the
  four entries the retriever reads, each absent or present.
\<close>

record chunk_metadata =
  meta_document_name :: "string option"
  meta_page_number :: "int option"
  meta_chunk_index :: "int option"
  meta_citation :: "string option"

text \<open>The dataclass \<open>RetrievedChunk\<close>; its field \<open>text\<close> is \<open>doc_text\<close> here.\<close>

record RetrievedChunk =
  doc_text :: string
  document_name :: string
  page_number :: int
  chunk_index :: int
  citation :: string
  similarity_score :: real
  metadata :: chunk_metadata

text \<open>
  The collaborators. The answer of \<open>collection.query\<close> holds the three included
  columns, each \<open>None\<close> or one row per query embedding. A collection is its query
  function (embedding and \<open>n_results\<close> to an answer or an exception); \<open>services\<close>
  holds \<open>get_chroma_client().get_collection\<close> and \<open>generate_embeddings\<close> of
  retrieval/indexing.py, each returning or raising.
\<close>

type_synonym embedding = "real list"

record QueryResult =
  documents :: "string list list option"
  metadatas :: "chunk_metadata list list option"
  distances :: "real list list option"

type_synonym collection = "embedding \<Rightarrow> int \<Rightarrow> exn + QueryResult"

record services =
  client_get_collection :: "string \<Rightarrow> exn + collection"
  generate_embeddings :: "string list \<Rightarrow> string \<Rightarrow> exn + embedding list"

text \<open>
  The state of the module: the global \<open>_collection_cache\<close>, and the requests sent to
  the collaborators so far, oldest first.
\<close>

datatype request =
  Get_collection string
| Embed "string list" string
| Query embedding int

record state =
  collection_cache :: "string \<rightharpoonup> collection"
  requests :: "request list"

definition get_collection :: "services \<Rightarrow> string \<Rightarrow> state \<Rightarrow> collection option \<times> state" where
  "get_collection srv collection_name s =
     (case collection_cache s collection_name of
        Some c \<Rightarrow> (Some c, s)
      | None \<Rightarrow>
          (let s1 = s\<lparr>requests := requests s @ [Get_collection collection_name]\<rparr>
           in case client_get_collection srv collection_name of
                Inr c \<Rightarrow>
                  (Some c, s1\<lparr>collection_cache := (collection_cache s1)(collection_name \<mapsto> c)\<rparr>)
              | Inl e \<Rightarrow> (None, s1)))"

text \<open>\<open>xs[0] if xs else []\<close> for a column that may be \<open>None\<close> or empty.\<close>

definition first_row :: "'a list list option \<Rightarrow> 'a list" where
  "first_row col = (case col of None \<Rightarrow> [] | Some [] \<Rightarrow> [] | Some (row # _) \<Rightarrow> row)"

text \<open>
  The \<open>for\<close> loop of \<open>search_documents\<close> over the zipped rows: a row whose similarity
  \<open>1 - distance\<close> is below \<open>min_score\<close> is skipped.
\<close>

fun select_chunks :: "real \<Rightarrow> (string \<times> chunk_metadata \<times> real) list \<Rightarrow> RetrievedChunk list" where
  "select_chunks min_score [] = []"
| "select_chunks min_score ((doc, md, distance) # rows) =
     (let score = 1 - distance
      in if score < min_score then select_chunks min_score rows
         else \<lparr> doc_text = doc,
                document_name = (case meta_document_name md of None \<Rightarrow> ''Unknown'' | Some v \<Rightarrow> v),
                page_number = (case meta_page_number md of None \<Rightarrow> 0 | Some v \<Rightarrow> v),
                chunk_index = (case meta_chunk_index md of None \<Rightarrow> 0 | Some v \<Rightarrow> v),
                citation = (case meta_citation md of None \<Rightarrow> ''No citation available'' | Some v \<Rightarrow> v),
                similarity_score = score,
                metadata = md \<rparr> # select_chunks min_score rows)"

definition search_documents ::
  "services \<Rightarrow> string \<Rightarrow> int \<Rightarrow> real \<Rightarrow> string \<Rightarrow> state \<Rightarrow> RetrievedChunk list \<times> state" where
  "search_documents srv query top_k min_score collection_name s =
     (case get_collection srv collection_name s of
        (None, s1) \<Rightarrow> ([], s1)
      | (Some coll, s1) \<Rightarrow>
          (let s2 = s1\<lparr>requests := requests s1 @ [Embed [query] EMBEDDING_MODEL]\<rparr>
           in case (case generate_embeddings srv [query] EMBEDDING_MODEL of
                      Inl e \<Rightarrow> Inl e
                    | Inr embeddings \<Rightarrow> py_index embeddings 0) of
                Inl e \<Rightarrow> ([], s2)
              | Inr query_embedding \<Rightarrow>
                  (let s3 = s2\<lparr>requests := requests s2 @ [Query query_embedding top_k]\<rparr>
                   in case coll query_embedding top_k of
                        Inl e \<Rightarrow> ([], s3)
                      | Inr results \<Rightarrow>
                          (if first_row (documents results) = [] then ([], s3)
                           else (select_chunks min_score
                                   (zip (first_row (documents results))
                                      (zip (first_row (metadatas results))
                                           (first_row (distances results)))), s3)))))"

text \<open>
  The dict returned by \<open>retrieve_with_context\<close> and \<open>multi_query_retrieval\<close>; its key
  \<open>context\<close> is \<open>context_text\<close> here, and \<open>chunks_by_document\<close> is \<open>None\<close> where the
  dict has no such key.
\<close>

record retrieval_result =
  found :: bool
  message :: string
  chunks :: "RetrievedChunk list"
  context_text :: string
  citations :: "string list"
  chunks_by_document :: "(string \<times> RetrievedChunk list) list option"

text \<open>The loop filling \<open>chunks_by_doc\<close>, a dict in insertion order.\<close>

definition group_chunk ::
  "RetrievedChunk \<Rightarrow> (string \<times> RetrievedChunk list) list \<Rightarrow> (string \<times> RetrievedChunk list) list" where
  "group_chunk chunk by_doc =
     (let doc_name = document_name chunk;
          by_doc1 = (if map_of by_doc doc_name = None then AList.update doc_name [] by_doc else by_doc)
      in case map_of by_doc1 doc_name of
           None \<Rightarrow> by_doc1
         | Some cs \<Rightarrow> AList.update doc_name (cs @ [chunk]) by_doc1)"

definition source_part :: "nat \<times> RetrievedChunk \<Rightarrow> string" where
  "source_part ic =
     ''[Source '' @ str_nat (fst ic) @ ''] '' @ citation (snd ic) @ [CHR 0x0A]
       @ doc_text (snd ic) @ [CHR 0x0A]"

definition retrieve_with_context ::
  "services \<Rightarrow> string \<Rightarrow> int \<Rightarrow> real \<Rightarrow> state \<Rightarrow> retrieval_result \<times> state" where
  "retrieve_with_context srv query top_k min_score s =
     (case search_documents srv query top_k min_score COLLECTION_NAME s of
        (hits, s1) \<Rightarrow>
          (if hits = [] then
             (\<lparr> found = False,
                message = ''Not found in sources. The available documents do not contain information to answer this query.'',
                chunks = [],
                context_text = [],
                citations = [],
                chunks_by_document = None \<rparr>, s1)
           else
             (let chunks_by_doc = fold group_chunk hits [];
                  context_parts = map source_part (List.enumerate 1 hits);
                  cites = map citation hits
              in (\<lparr> found = True,
                     message = ''Found '' @ str_nat (length hits) @ '' relevant chunks from ''
                               @ str_nat (length chunks_by_doc) @ '' documents.'',
                     chunks = hits,
                     context_text = join ([CHR 0x0A] @ ''---'' @ [CHR 0x0A]) context_parts,
                     citations = dict_fromkeys cites,
                     chunks_by_document = Some chunks_by_doc \<rparr>, s1))))"

text \<open>The dedup key \<open>f"{document_name}_{page_number}_{chunk_index}"\<close> of the multi-query merge.\<close>

definition chunk_id :: "RetrievedChunk \<Rightarrow> string" where
  "chunk_id chunk =
     document_name chunk @ ''_'' @ str_int (page_number chunk) @ ''_'' @ str_int (chunk_index chunk)"

text \<open>The inner loop over the hits of one query, on \<open>(all_chunks, seen_ids)\<close>.\<close>

fun merge_hits ::
  "RetrievedChunk list \<Rightarrow> RetrievedChunk list \<times> string set \<Rightarrow> RetrievedChunk list \<times> string set" where
  "merge_hits [] acc = acc"
| "merge_hits (chunk # rest) (all_chunks, seen_ids) =
     (if chunk_id chunk \<notin> seen_ids
      then merge_hits rest (all_chunks @ [chunk], insert (chunk_id chunk) seen_ids)
      else merge_hits rest (all_chunks, seen_ids))"

text \<open>The outer loop over the queries, threading the module state through the searches.\<close>

fun query_loop ::
  "services \<Rightarrow> string list \<Rightarrow> int \<Rightarrow> real \<Rightarrow> RetrievedChunk list \<times> string set \<Rightarrow> state
     \<Rightarrow> (RetrievedChunk list \<times> string set) \<times> state" where
  "query_loop srv [] top_k_per_query min_score acc s = (acc, s)"
| "query_loop srv (query # rest) top_k_per_query min_score acc s =
     (case search_documents srv query top_k_per_query min_score COLLECTION_NAME s of
        (hits, s1) \<Rightarrow> query_loop srv rest top_k_per_query min_score (merge_hits hits acc) s1)"

text \<open>
  \<open>all_chunks.sort(key=lambda x: x.similarity_score, reverse=True)\<close>: a stable sort, and
  with \<open>reverse=True\<close> chunks of equal score keep their order.
\<close>

definition sort_by_score_desc :: "RetrievedChunk list \<Rightarrow> RetrievedChunk list" where
  "sort_by_score_desc cs = sort_key (\<lambda>x. - similarity_score x) cs"

definition multi_query_retrieval ::
  "services \<Rightarrow> string list \<Rightarrow> int \<Rightarrow> real \<Rightarrow> state \<Rightarrow> retrieval_result \<times> state" where
  "multi_query_retrieval srv queries top_k_per_query min_score s =
     (case query_loop srv queries top_k_per_query min_score ([], {}) s of
        ((collected, seen_ids), s1) \<Rightarrow>
          (let all_chunks = sort_by_score_desc collected
           in if all_chunks = [] then
                (\<lparr> found = False,
                   message = ''Not found in sources.'',
                   chunks = [],
                   context_text = [],
                   citations = [],
                   chunks_by_document = None \<rparr>, s1)
              else
                (\<lparr> found = True,
                   message = ''Found '' @ str_nat (length all_chunks) @ '' unique chunks across ''
                             @ str_nat (length queries) @ '' queries.'',
                   chunks = all_chunks,
                   context_text = join ([CHR 0x0A] @ ''---'' @ [CHR 0x0A])
                                    (map source_part (List.enumerate 1 all_chunks)),
                   citations = dict_fromkeys (map citation all_chunks),
                   chunks_by_document = None \<rparr>, s1)))"

section \<open>retrieval/prompting.py\<close>

text \<open>The lines one chunk adds to \<open>context_parts\<close> in \<open>format_context_for_agent\<close>.\<close>

definition context_section :: "runtime \<Rightarrow> bool \<Rightarrow> nat \<times> RetrievedChunk \<Rightarrow> string list" where
  "context_section rt include_scores ic =
     [[CHR 0x0A] @ ''## Source '' @ str_nat (fst ic),
      ''**Citation:** '' @ citation (snd ic)]
     @ (if include_scores
        then [''**Relevance Score:** '' @ format_3f rt (similarity_score (snd ic))]
        else [])
     @ [[CHR 0x0A] @ ''**Content:**'' @ [CHR 0x0A] @ doc_text (snd ic),
        [CHR 0x0A] @ replicate 70 CHR ''-'']"

definition format_context_for_agent :: "runtime \<Rightarrow> RetrievedChunk list \<Rightarrow> bool \<Rightarrow> string" where
  "format_context_for_agent rt chunk_list include_scores =
     (if chunk_list = [] then ''No relevant information found in the documents.''
      else join [CHR 0x0A]
             ([''# Retrieved Information'' @ [CHR 0x0A],
               ''Found '' @ str_nat (length chunk_list) @ '' relevant sources:'' @ [CHR 0x0A]]
              @ concat (map (context_section rt include_scores) (List.enumerate 1 chunk_list))))"

text \<open>The citations in the order \<open>format_citations\<close> numbers them: \<open>list(set(...))\<close>.\<close>

definition unique_citations :: "runtime \<Rightarrow> RetrievedChunk list \<Rightarrow> string list" where
  "unique_citations rt chunk_list = set_iteration rt (map citation chunk_list)"

definition citation_line :: "nat \<times> string \<Rightarrow> string" where
  "citation_line ic = str_nat (fst ic) @ ''. '' @ snd ic"

definition format_citations :: "runtime \<Rightarrow> RetrievedChunk list \<Rightarrow> string" where
  "format_citations rt chunk_list =
     (if chunk_list = [] then ''No sources''
      else join [CHR 0x0A] (map citation_line (List.enumerate 1 (unique_citations rt chunk_list))))"

section \<open>copilot_agents/tools.py\<close>

definition search_retail_documents ::
  "runtime \<Rightarrow> services \<Rightarrow> string \<Rightarrow> int \<Rightarrow> state \<Rightarrow> string \<times> state" where
  "search_retail_documents rt srv query top_k s =
     (case retrieve_with_context srv query top_k (3 / 10) s of
        (results, s1) \<Rightarrow>
          (if \<not> found results then
             (''Not found in sources. The available documents do not contain information relevant to this query.'', s1)
           else
             (format_context_for_agent rt (chunks results) True
                @ [CHR 0x0A, CHR 0x0A] @ ''## Citations'' @ [CHR 0x0A]
                @ format_citations rt (chunks results), s1)))"

definition multi_search_retail_documents ::
  "runtime \<Rightarrow> services \<Rightarrow> string \<Rightarrow> state \<Rightarrow> string \<times> state" where
  "multi_search_retail_documents rt srv queries s =
     (let query_list = map strip (filter (\<lambda>q. strip q \<noteq> []) (split_on CHR '','' queries))
      in if query_list = [] then (''No valid queries provided.'', s)
         else
           (case multi_query_retrieval srv query_list 3 (3 / 10) s of
              (results, s1) \<Rightarrow>
                (if \<not> found results then
                   (''Not found in sources. None of the queries returned relevant results from the document set.'', s1)
                 else
                   (''Combined results from '' @ str_nat (length query_list) @ '' queries:''
                      @ [CHR 0x0A, CHR 0x0A]
                      @ format_context_for_agent rt (chunks results) True
                      @ [CHR 0x0A, CHR 0x0A] @ ''## Citations'' @ [CHR 0x0A]
                      @ format_citations rt (chunks results), s1))))"

section \<open>copilot_agents/models.py\<close>

record ActionItem =
  action :: string
  owner :: string
  due_date :: string
  confidence :: string

record Deliverable =
  executive_summary :: string
  client_email :: string
  action_items :: "ActionItem list"
  sources :: "string list"

record ClaimVerification =
  claim :: string
  verdict :: string
  supporting_sources :: "string list"
  explanation :: string

record VerificationReport =
  overall_verdict :: string
  verified_claims :: "ClaimVerification list"
  unsupported_claims :: "string list"
  suggestions :: "string list"
  corrected_executive_summary :: "string option"
  corrected_client_email :: "string option"
  corrected_action_items :: "ActionItem list option"

text \<open>
  The structured output offered to the schema \<open>VerificationReport\<close>: each field given
  or not given (\<open>None\<close>; for the three corrected fields also an explicit null).
\<close>

record report_fields =
  given_overall_verdict :: "string option"
  given_verified_claims :: "ClaimVerification list option"
  given_unsupported_claims :: "string list option"
  given_suggestions :: "string list option"
  given_corrected_executive_summary :: "string option"
  given_corrected_client_email :: "string option"
  given_corrected_action_items :: "ActionItem list option"

text \<open>
  Validation against the schema as models.py declares it: the four fields without a
  default are required, the three with \<open>default=None\<close> are optional, and the class has
  no validator relating one field to another.
\<close>

definition validate_VerificationReport :: "report_fields \<Rightarrow> exn + VerificationReport" where
  "validate_VerificationReport f =
     (case given_overall_verdict f of
        None \<Rightarrow> Inl (ValidationError ''overall_verdict'')
      | Some v \<Rightarrow>
     (case given_verified_claims f of
        None \<Rightarrow> Inl (ValidationError ''verified_claims'')
      | Some vc \<Rightarrow>
     (case given_unsupported_claims f of
        None \<Rightarrow> Inl (ValidationError ''unsupported_claims'')
      | Some uc \<Rightarrow>
     (case given_suggestions f of
        None \<Rightarrow> Inl (ValidationError ''suggestions'')
      | Some sg \<Rightarrow>
          Inr \<lparr> overall_verdict = v,
                verified_claims = vc,
                unsupported_claims = uc,
                suggestions = sg,
                corrected_executive_summary = given_corrected_executive_summary f,
                corrected_client_email = given_corrected_client_email f,
                corrected_action_items = given_corrected_action_items f \<rparr>))))"

section \<open>The Deliver stage\<close>

text \<open>
  Modelled from the spec: the merge of the Deliver stage, which belongs to
  copilot_agents/orchestrator.py; that module is not among the sources (only the record
  \<open>PipelineResult\<close> of models.py is). The spec: if \<open>overall_verdict == PASS\<close>,
  \<open>final_deliverable = draft\<close>; otherwise \<open>final_deliverable\<close> is reconstructed by
  substituting each corrected field where present and falling back to the original field
  where a correction was not supplied.
\<close>

definition merge_corrections :: "Deliverable \<Rightarrow> VerificationReport \<Rightarrow> Deliverable" where
  "merge_corrections d v =
     (if overall_verdict v = ''PASS'' then d
      else \<lparr> executive_summary =
               (case corrected_executive_summary v of None \<Rightarrow> executive_summary d | Some c \<Rightarrow> c),
             client_email =
               (case corrected_client_email v of None \<Rightarrow> client_email d | Some c \<Rightarrow> c),
             action_items =
               (case corrected_action_items v of None \<Rightarrow> action_items d | Some c \<Rightarrow> c),
             sources = sources d \<rparr>)"

text \<open>
  \<open>PipelineResult\<close> of models.py, over the types of the plan and of the research notes
  (\<open>ExecutionPlan\<close> and \<open>ResearchNotes\<close>, which the merge does not read).
\<close>

record ('plan, 'notes) PipelineResult =
  plan :: 'plan
  research :: 'notes
  draft :: Deliverable
  verification :: VerificationReport
  final_deliverable :: Deliverable

text \<open>
  Modelled from the spec: the Deliver stage packaging the four stage outputs and the
  merged deliverable (copilot_agents/orchestrator.py is not among the sources).
\<close>

definition deliver ::
  "'plan \<Rightarrow> 'notes \<Rightarrow> Deliverable \<Rightarrow> VerificationReport \<Rightarrow> ('plan, 'notes) PipelineResult" where
  "deliver p n d v =
     \<lparr> plan = p, research = n, draft = d, verification = v,
       final_deliverable = merge_corrections d v \<rparr>"

section \<open>Notions used to state the properties\<close>

text \<open>A chunk of \<open>chunk_text\<close> that meets the floor, is trimmed, and is no longer than the text.\<close>

definition chunk_ok :: "string \<Rightarrow> string \<Rightarrow> bool" where
  "chunk_ok t c =
     (MIN_CHUNK_SIZE \<le> length (strip c) \<and> strip c = c \<and> length c \<le> length t)"

text \<open>The chunk identifier: document name, page number and in-page index.\<close>

definition chunk_key :: "RetrievedChunk \<Rightarrow> string \<times> int \<times> int" where
  "chunk_key c = (document_name c, page_number c, chunk_index c)"

text \<open>
  Deduplication in first-seen order, following the spec's words: each distinct element
  once, at the place of its first occurrence.
\<close>

fun first_seen :: "'a list \<Rightarrow> 'a list" where
  "first_seen [] = []"
| "first_seen (x # xs) = x # first_seen (filter (\<lambda>y. y \<noteq> x) xs)"

text \<open>\<open>sub in s\<close>: \<open>sub\<close> occurs in \<open>s\<close> as a contiguous run.\<close>

definition str_contains :: "string \<Rightarrow> string \<Rightarrow> bool" where
  "str_contains s sub = (\<exists>t \<in> set (suffixes s). prefix sub t)"

text \<open>The value of a decimal digit and of a digit string, inverse to \<open>str_nat\<close>.\<close>

definition digit_val :: "char \<Rightarrow> nat" where
  "digit_val c = of_char c - 48"

definition nat_of_digits :: "string \<Rightarrow> nat" where
  "nat_of_digits ds = foldl (\<lambda>a c. 10 * a + digit_val c) 0 ds"

section \<open>Concrete inputs\<close>

text \<open>A page text of 111 characters with white space at both ends.\<close>

definition t0 :: string where
  "t0 = ''  Retail inventory accuracy improves when cycle counts are scheduled weekly and shrink is tracked per store.   ''"

text \<open>
  An index holding one chunk, at cosine distance 0.3 from the embedding of the query
  ``stock accuracy'' and 0.1 from that of any other query.
\<close>

definition md0 :: chunk_metadata where
  "md0 = \<lparr> meta_document_name = Some ''ops_guide.pdf'',
           meta_page_number = Some 4,
           meta_chunk_index = Some 1,
           meta_citation = Some ''ops_guide.pdf, Page 4, Chunk 1'' \<rparr>"

definition coll0 :: collection where
  "coll0 e n =
     Inr \<lparr> documents = Some [[''Cycle counts raise inventory accuracy.'']],
           metadatas = Some [[md0]],
           distances = Some [[if e = [1, 0] then 3 / 10 else 1 / 10]] \<rparr>"

definition srv0 :: services where
  "srv0 =
     \<lparr> client_get_collection =
         (\<lambda>name. if name = COLLECTION_NAME then Inr coll0 else Inl (Failure ''no such collection'')),
       generate_embeddings =
         (\<lambda>texts model. Inr (map (\<lambda>t. if t = ''stock accuracy'' then [1, 0] else [0, 1]) texts)) \<rparr>"

definition s0 :: state where
  "s0 = \<lparr> collection_cache = Map.empty, requests = [] \<rparr>"

text \<open>The hit for that chunk at a given similarity score.\<close>

definition hit0 :: "real \<Rightarrow> RetrievedChunk" where
  "hit0 score =
     \<lparr> doc_text = ''Cycle counts raise inventory accuracy.'',
       document_name = ''ops_guide.pdf'',
       page_number = 4,
       chunk_index = 1,
       citation = ''ops_guide.pdf, Page 4, Chunk 1'',
       similarity_score = score,
       metadata = md0 \<rparr>"

text \<open>
  An index answering every query with two rows, at distances 0.1 and 0.58 (similarity
  0.9 and 0.42), and services that fail: no collection, no embedding, a failing index.
\<close>

definition md1 :: chunk_metadata where
  "md1 = \<lparr> meta_document_name = Some ''returns_playbook.pdf'',
           meta_page_number = Some 2,
           meta_chunk_index = Some 0,
           meta_citation = Some ''returns_playbook.pdf, Page 2, Chunk 0'' \<rparr>"

definition coll1 :: collection where
  "coll1 e n =
     Inr \<lparr> documents = Some [[''Cycle counts raise inventory accuracy.'',
                              ''Returns are restocked within two days.'']],
           metadatas = Some [[md0, md1]],
           distances = Some [[1 / 10, 58 / 100]] \<rparr>"

definition srv1 :: services where
  "srv1 = srv0 \<lparr> client_get_collection := (\<lambda>name. Inr coll1) \<rparr>"

definition coll_weak :: collection where
  "coll_weak e n =
     Inr \<lparr> documents = Some [[''Returns are restocked within two days.'']],
           metadatas = Some [[md1]],
           distances = Some [[58 / 100]] \<rparr>"

definition srv_weak :: services where
  "srv_weak = srv0 \<lparr> client_get_collection := (\<lambda>name. Inr coll_weak) \<rparr>"

definition srv_no_collection :: services where
  "srv_no_collection = srv0 \<lparr> client_get_collection := (\<lambda>name. Inl (Failure ''no such collection'')) \<rparr>"

definition srv_no_embedding :: services where
  "srv_no_embedding = srv0 \<lparr> generate_embeddings := (\<lambda>texts model. Inl (Failure ''Failed to generate embeddings'')) \<rparr>"

definition srv_no_index :: services where
  "srv_no_index = srv0 \<lparr> client_get_collection := (\<lambda>name. Inr (\<lambda>e n. Inl (Failure ''index unavailable''))) \<rparr>"

text \<open>The rows of that answer, as \<open>search_documents\<close> zips them.\<close>

definition rows1 :: "(string \<times> chunk_metadata \<times> real) list" where
  "rows1 = [(''Cycle counts raise inventory accuracy.'', md0, 1 / 10),
            (''Returns are restocked within two days.'', md1, 58 / 100)]"

text \<open>A second chunk, and a hit for it at a given similarity score.\<close>

definition hit1 :: "real \<Rightarrow> RetrievedChunk" where
  "hit1 score =
     \<lparr> doc_text = ''Returns are restocked within two days.'',
       document_name = ''returns_playbook.pdf'',
       page_number = 2,
       chunk_index = 0,
       citation = ''returns_playbook.pdf, Page 2, Chunk 0'',
       similarity_score = score,
       metadata = md1 \<rparr>"

text \<open>
  A runtime whose sets are iterated in the reverse of the insertion order, and whose
  floats are rendered with three decimals, rounded half up.
\<close>

definition format_3f_half_up :: "real \<Rightarrow> string" where
  "format_3f_half_up x =
     (let n = nat (round (\<bar>x\<bar> * 1000));
          frac = str_nat (n mod 1000)
      in (if x < 0 then ''-'' else [])
         @ str_nat (n div 1000) @ ''.'' @ replicate (3 - length frac) CHR ''0'' @ frac)"

definition rt_rev :: runtime where
  "rt_rev = \<lparr> set_iteration = (\<lambda>xs. rev (dict_fromkeys xs)), format_3f = format_3f_half_up \<rparr>"

text \<open>
  A structured output with verdict FAIL and no corrected field, the report it validates
  to, and one with verdict PASS and a corrected summary.
\<close>

definition fields_fail :: report_fields where
  "fields_fail =
     \<lparr> given_overall_verdict = Some ''FAIL'',
       given_verified_claims = Some [],
       given_unsupported_claims = Some [''Shrink fell by 30 percent.''],
       given_suggestions = Some [''Remove the shrink figure.''],
       given_corrected_executive_summary = None,
       given_corrected_client_email = None,
       given_corrected_action_items = None \<rparr>"

definition report_fail :: VerificationReport where
  "report_fail =
     \<lparr> overall_verdict = ''FAIL'',
       verified_claims = [],
       unsupported_claims = [''Shrink fell by 30 percent.''],
       suggestions = [''Remove the shrink figure.''],
       corrected_executive_summary = None,
       corrected_client_email = None,
       corrected_action_items = None \<rparr>"

definition fields_pass :: report_fields where
  "fields_pass =
     \<lparr> given_overall_verdict = Some ''PASS'',
       given_verified_claims = Some [],
       given_unsupported_claims = Some [],
       given_suggestions = Some [],
       given_corrected_executive_summary = Some ''Cycle counts raise accuracy.'',
       given_corrected_client_email = None,
       given_corrected_action_items = None \<rparr>"

definition report_pass :: VerificationReport where
  "report_pass =
     \<lparr> overall_verdict = ''PASS'',
       verified_claims = [],
       unsupported_claims = [],
       suggestions = [],
       corrected_executive_summary = Some ''Cycle counts raise accuracy.'',
       corrected_client_email = None,
       corrected_action_items = None \<rparr>"

text \<open>
  A draft, and a report with verdict FAIL that corrects the summary and leaves the client
  email and the action items uncorrected.
\<close>

definition draft0 :: Deliverable where
  "draft0 =
     \<lparr> executive_summary = ''Cycle counts raise accuracy and cut shrink by 30 percent.'',
       client_email = ''Dear client, please find our findings attached.'',
       action_items =
         [\<lparr> action = ''Schedule weekly cycle counts'', owner = ''Store operations'',
            due_date = ''Q3'', confidence = ''High'' \<rparr>],
       sources = [''ops_guide.pdf, Page 4, Chunk 1''] \<rparr>"

definition report_summary_only :: VerificationReport where
  "report_summary_only =
     report_fail \<lparr> corrected_executive_summary := Some ''Cycle counts raise accuracy.'' \<rparr>"

section \<open>The chunker: floor, trimming and termination\<close>

lemma strip_Nil_or_ends:
  "strip s = [] \<or> (\<not> isspace (hd (strip s)) \<and> \<not> isspace (last (strip s)))"
proof (cases "dropWhile isspace s = []")
  case True
  show ?thesis unfolding strip_def True by simp
next
  case False
  define t where "t = dropWhile isspace s"
  have t: "t \<noteq> []" "\<not> isspace (hd t)" using False hd_dropWhile[of isspace s] by (auto simp: t_def)
  define u where "u = dropWhile isspace (rev t)"
  have "last (rev t) = hd t" using t by (simp add: last_rev)
  then have "\<exists>x \<in> set (rev t). \<not> isspace x" using t by (metis last_in_set rev_is_Nil_conv)
  then have u: "u \<noteq> []" by (simp add: u_def dropWhile_eq_Nil_conv)
  then have hu: "\<not> isspace (hd u)" unfolding u_def by (metis hd_dropWhile)
  have "rev t = takeWhile isspace (rev t) @ u" by (simp add: u_def)
  then have "t = rev u @ rev (takeWhile isspace (rev t))" by (metis rev_append rev_rev_ident)
  then have "hd t = hd (rev u)" using u by (metis hd_append2 rev_is_Nil_conv)
  then have "\<not> isspace (hd (rev u))" using t by simp
  moreover have "last (rev u) = hd u" using u by (simp add: last_rev)
  moreover have "strip s = rev u" by (simp add: strip_def u_def t_def)
  ultimately show ?thesis using hu by simp
qed

lemma strip_fixed:
  assumes "s = [] \<or> (\<not> isspace (hd s) \<and> \<not> isspace (last s))"
  shows "strip s = s"
proof (cases s)
  case Nil then show ?thesis by (simp add: strip_def)
next
  case (Cons a as)
  then have a: "\<not> isspace (hd s)" "\<not> isspace (last s)" using assms by auto
  have 1: "dropWhile isspace s = s" using a Cons by simp
  have r: "rev s \<noteq> []" "hd (rev s) = last s" using Cons by (simp_all add: hd_rev)
  then obtain b bs where b: "rev s = b # bs" by (cases "rev s") auto
  with r a have "\<not> isspace b" by simp
  then have 2: "dropWhile isspace (rev s) = rev s" by (simp add: b)
  show ?thesis by (simp add: strip_def 1 2)
qed

lemma strip_strip: "strip (strip s) = strip s"
  by (rule strip_fixed) (rule strip_Nil_or_ends)

lemma length_strip_le: "length (strip s) \<le> length s"
proof -
  have "length (dropWhile isspace (rev (dropWhile isspace s))) \<le> length (rev (dropWhile isspace s))"
    by (rule length_dropWhile_le)
  also have "\<dots> \<le> length s" by (simp add: length_dropWhile_le)
  finally show ?thesis by (simp add: strip_def)
qed

lemma length_py_slice_le: "length (py_slice xs i j) \<le> length xs"
  by (simp add: py_slice_def Let_def)

lemma chunk_body_ok:
  assumes "chunk_body t cs co st = Inr st'" and "\<forall>c \<in> set (snd st). chunk_ok t c"
  shows "\<forall>c \<in> set (snd st'). chunk_ok t c"
proof -
  have "\<exists>chunk. snd st' = (if MIN_CHUNK_SIZE \<le> length (strip (py_slice t (fst st) chunk))
            then snd st @ [strip (py_slice t (fst st) chunk)] else snd st)"
    using assms(1) by (auto simp: chunk_body_def Let_def split: sum.splits if_splits)
  then obtain e where e: "snd st' = (if MIN_CHUNK_SIZE \<le> length (strip (py_slice t (fst st) e))
            then snd st @ [strip (py_slice t (fst st) e)] else snd st)" by blast
  have "length (strip (py_slice t (fst st) e)) \<le> length t"
    using length_strip_le[of "py_slice t (fst st) e"] length_py_slice_le[of t "fst st" e] by linarith
  then show ?thesis using e assms(2) by (auto simp: chunk_ok_def strip_strip)
qed

lemma chunk_body_start:
  "chunk_body t cs co st = Inr st' \<Longrightarrow> fst st' = fst st + (cs - co)"
  by (auto simp: chunk_body_def Let_def split: sum.splits if_splits)

lemma chunk_loop_ok_aux:
  assumes "chunk_loop t cs co st = Some r"
  shows "(\<forall>c \<in> set (snd st). chunk_ok t c) \<longrightarrow>
         (\<forall>zs. r = Inr zs \<longrightarrow> (\<forall>c \<in> set zs. chunk_ok t c))"
  using assms
proof (induct t cs co st r rule: chunk_loop.raw_induct)
  case (1 loop t cs co st r)
  note IH = "1.hyps"(1) and eq = "1.hyps"(2) and ret = "1.prems"
  have unf: "chunk_loop t cs co st =
       (if fst st < int (length t)
        then (case chunk_body t cs co st of
                Inl e \<Rightarrow> Some (Inl e)
              | Inr st' \<Rightarrow> chunk_loop t cs co st')
        else Some (Inr (snd st)))"
    by (rule chunk_loop.simps)
  show ?case
  proof (cases "fst st < int (length t)")
    case True
    show ?thesis
    proof (cases "chunk_body t cs co st")
      case (Inl e)
      with True eq show ?thesis by auto
    next
      case (Inr st')
      from True Inr eq have a: "loop t cs co st' = Some r" by simp
      from True Inr ret unf have b: "chunk_loop t cs co st' = Some r" by simp
      from IH[OF a b] chunk_body_ok[OF Inr] show ?thesis by blast
    qed
  next
    case False
    with eq show ?thesis by auto
  qed
qed (fact assms)

lemma chunk_loop_ok:
  assumes "chunk_loop t cs co st = Some (Inr ys)" and "\<forall>c \<in> set (snd st). chunk_ok t c"
  shows "\<forall>c \<in> set ys. chunk_ok t c"
  using chunk_loop_ok_aux[OF assms(1)] assms(2) by blast

lemma chunk_body_returns:
  assumes "0 \<le> fst st" "0 \<le> cs"
  shows "\<exists>st'. chunk_body t cs co st = Inr st'"
  using assms by (auto simp: chunk_body_def Let_def py_index_def split: sum.splits)

lemma chunk_loop_returns:
  assumes "0 \<le> co" "co < cs" "0 \<le> fst st"
  shows "\<exists>ys. chunk_loop t cs co st = Some (Inr ys)"
  using assms(3)
proof (induction "nat (int (length t) - fst st)" arbitrary: st rule: less_induct)
  case less
  show ?case
  proof (cases "fst st < int (length t)")
    case False
    then show ?thesis by (subst chunk_loop.simps) simp
  next
    case True
    from chunk_body_returns[of st cs t co] less.prems assms
    obtain st' where st': "chunk_body t cs co st = Inr st'" by auto
    have f: "fst st' = fst st + (cs - co)" by (rule chunk_body_start[OF st'])
    have "nat (int (length t) - fst st') < nat (int (length t) - fst st)"
      using f True assms by linarith
    moreover have "0 \<le> fst st'" using f less.prems assms by linarith
    ultimately obtain ys where "chunk_loop t cs co st' = Some (Inr ys)"
      using less.hyps by blast
    then show ?thesis using True st' by (subst chunk_loop.simps) simp
  qed
qed

subsection \<open>Evaluation at the concrete page text\<close>

lemma strip_t0: "strip t0 = ''Retail inventory accuracy improves when cycle counts are scheduled weekly and shrink is tracked per store.''"
  by (simp add: strip_def t0_def isspace_def)

lemma chunk_body_t0: "chunk_body t0 1000 200 (0, []) = Inr (800, [strip t0])"
  by (simp add: chunk_body_def py_slice_def slice_bound_def strip_t0 MIN_CHUNK_SIZE_def Let_def)
    (simp add: t0_def)

lemma length_t0: "length t0 = 111"
  by (simp add: t0_def)

lemma chunk_text_t0: "chunk_text t0 1000 200 = Some (Inr [strip t0])"
proof -
  have "chunk_loop t0 1000 200 (800, [strip t0]) = Some (Inr [strip t0])"
    by (subst chunk_loop.simps) (simp add: length_t0)
  then show ?thesis
    unfolding chunk_text_def by (subst chunk_loop.simps) (simp add: chunk_body_t0 length_t0)
qed

subsection \<open>The minimum-size floor\<close>

text \<open>
  C8. Every chunk that \<open>chunk_text\<close> returns, for any parameters, is at least
  \<open>MIN_CHUNK_SIZE\<close> characters long after stripping and equals its own strip; and for
  a page text shorter than \<open>MIN_CHUNK_SIZE\<close>, \<open>chunk_text\<close> with the configured
  parameters returns the empty list (as does any call that returns at all).
\<close>

theorem chunk_text_min_size:
  "(chunk_text t cs co = Some (Inr ys) \<longrightarrow>
      (\<forall>c \<in> set ys. MIN_CHUNK_SIZE \<le> length (strip c) \<and> strip c = c))
   \<and> (length t < MIN_CHUNK_SIZE \<longrightarrow>
        chunk_text t CHUNK_SIZE CHUNK_OVERLAP = Some (Inr [])
        \<and> (chunk_text t cs co = Some (Inr ys) \<longrightarrow> ys = []))"
proof -
  have ok: "\<forall>c \<in> set zs. chunk_ok t c" if "chunk_text t a b = Some (Inr zs)" for a b zs
    using chunk_loop_ok[of t a b "(0, [])" zs] that by (simp add: chunk_text_def)
  have empty: "zs = []" if "chunk_text t a b = Some (Inr zs)" and "length t < MIN_CHUNK_SIZE" for a b zs
  proof (cases zs)
    case Nil then show ?thesis .
  next
    case (Cons c cs')
    then have "chunk_ok t c" using ok[OF that(1)] by simp
    then have "MIN_CHUNK_SIZE \<le> length (strip c) \<and> strip c = c \<and> length c \<le> length t"
      unfolding chunk_ok_def .
    then have "MIN_CHUNK_SIZE \<le> length c" "length c \<le> length t" by metis+
    with that(2) show ?thesis by simp
  qed
  obtain zs where zs: "chunk_text t CHUNK_SIZE CHUNK_OVERLAP = Some (Inr zs)"
    using chunk_loop_returns[of CHUNK_OVERLAP CHUNK_SIZE "(0, [])" t]
    by (auto simp: chunk_text_def CHUNK_SIZE_def CHUNK_OVERLAP_def)
  have ok': "\<forall>c \<in> set zs. MIN_CHUNK_SIZE \<le> length (strip c) \<and> strip c = c"
    if "chunk_text t a b = Some (Inr zs)" for a b zs
    using ok[OF that] unfolding chunk_ok_def by blast
  from empty zs have "length t < MIN_CHUNK_SIZE \<longrightarrow> zs = []" by blast
  with ok' empty zs show ?thesis by blast
qed

theorem chunk_text_min_size_witness:
  "chunk_text t0 1000 200 = Some (Inr [strip t0])
   \<and> MIN_CHUNK_SIZE \<le> length (strip (strip t0)) \<and> strip (strip t0) = strip t0
   \<and> length ''too short'' < MIN_CHUNK_SIZE
   \<and> chunk_text ''too short'' CHUNK_SIZE CHUNK_OVERLAP = Some (Inr [])"
proof -
  have short: "length ''too short'' < MIN_CHUNK_SIZE" by (simp add: MIN_CHUNK_SIZE_def)
  from chunk_text_min_size[of t0 1000 200 "[strip t0]"] chunk_text_t0
  have "\<forall>c \<in> set [strip t0]. MIN_CHUNK_SIZE \<le> length (strip c) \<and> strip c = c" by blast
  then have "MIN_CHUNK_SIZE \<le> length (strip (strip t0)) \<and> strip (strip t0) = strip t0"
    by (metis list.set_intros(1))
  moreover from chunk_text_min_size[of "''too short''" 1000 200 "[]"] short
  have "chunk_text ''too short'' CHUNK_SIZE CHUNK_OVERLAP = Some (Inr [])" by blast
  ultimately show ?thesis using chunk_text_t0 short by blast
qed

subsection \<open>Termination\<close>

text \<open>
  C9. For parameters with \<open>0 \<le> chunk_overlap < chunk_size\<close>, \<open>chunk_text\<close> terminates
  and returns a list, and every pass through the loop body moves the window start by
  \<open>chunk_size - chunk_overlap\<close>, which is positive, whether or not the right edge was
  retracted.
\<close>

theorem chunk_text_terminates:
  assumes "0 \<le> co" and "co < cs"
  shows "(\<exists>ys. chunk_text t cs co = Some (Inr ys))
         \<and> (\<forall>start acc st'. chunk_body t cs co (start, acc) = Inr st'
                \<longrightarrow> fst st' = start + (cs - co) \<and> start < fst st')"
proof -
  have "\<exists>ys. chunk_text t cs co = Some (Inr ys)"
    unfolding chunk_text_def using chunk_loop_returns[of co cs "(0, [])" t] assms by simp
  moreover have "fst st' = start + (cs - co) \<and> start < fst st'"
    if "chunk_body t cs co (start, acc) = Inr st'" for start acc st'
    using chunk_body_start[OF that] assms by simp
  ultimately show ?thesis by blast
qed

theorem chunk_text_terminates_witness:
  "(0::int) \<le> 200 \<and> (200::int) < 1000
   \<and> (\<exists>ys. chunk_text t0 1000 200 = Some (Inr ys))
   \<and> chunk_body t0 1000 200 (0, []) = Inr (800, [strip t0])"
proof -
  have h: "(0::int) \<le> 200" "(200::int) < 1000" by simp_all
  from chunk_text_terminates[OF h, of t0] have "\<exists>ys. chunk_text t0 1000 200 = Some (Inr ys)" by blast
  with h chunk_body_t0 show ?thesis by blast
qed

section \<open>The retriever\<close>

subsection \<open>The dedup key determines the chunk identifier\<close>

lemma digit_not_special:
  "d < 10 \<Longrightarrow> ''0123456789'' ! d \<noteq> CHR ''_'' \<and> ''0123456789'' ! d \<noteq> CHR ''-''"
proof -
  assume "d < 10"
  then have "d \<in> {0,1,2,3,4,5,6,7,8,9}" by auto
  then show ?thesis by auto
qed

lemma digit_val_digit: "d < 10 \<Longrightarrow> digit_val (''0123456789'' ! d) = d"
proof -
  assume "d < 10"
  then have "d \<in> {0,1,2,3,4,5,6,7,8,9}" by auto
  then show ?thesis by (auto simp: digit_val_def)
qed

lemma nat_of_digits_str_nat: "nat_of_digits (str_nat n) = n"
proof (induction n rule: str_nat.induct)
  case (1 n)
  show ?case
  proof (cases "n < 10")
    case True
    then show ?thesis by (subst str_nat.simps) (simp add: nat_of_digits_def digit_val_digit)
  next
    case False
    have "nat_of_digits (str_nat n) = 10 * nat_of_digits (str_nat (n div 10)) + digit_val (''0123456789'' ! (n mod 10))"
      using False by (subst str_nat.simps) (simp add: nat_of_digits_def)
    also have "\<dots> = 10 * (n div 10) + n mod 10"
      using 1[OF False] by (simp add: digit_val_digit)
    finally show ?thesis by simp
  qed
qed

lemma str_nat_inj: "str_nat a = str_nat b \<Longrightarrow> a = b"
  by (metis nat_of_digits_str_nat)

lemma str_nat_chars: "c \<in> set (str_nat n) \<Longrightarrow> c \<noteq> CHR ''_'' \<and> c \<noteq> CHR ''-''"
proof (induction n rule: str_nat.induct)
  case (1 n)
  show ?case
  proof (cases "n < 10")
    case True
    with 1(2) have "c = ''0123456789'' ! n" by (subst (asm) str_nat.simps) simp
    with True digit_not_special[of n] show ?thesis by simp
  next
    case False
    with 1(2) have "c \<in> set (str_nat (n div 10)) \<or> c = ''0123456789'' ! (n mod 10)"
      by (subst (asm) str_nat.simps) auto
    with 1(1)[OF False] digit_not_special[of "n mod 10"] show ?thesis by auto
  qed
qed

lemma str_nat_nonempty: "str_nat n \<noteq> []"
  by (subst str_nat.simps) simp

lemma str_int_inj: "str_int a = str_int b \<Longrightarrow> a = b"
proof -
  assume eq: "str_int a = str_int b"
  have hd_nat: "hd (str_nat n) \<noteq> CHR ''-''" for n
    using str_nat_chars[of "hd (str_nat n)" n] str_nat_nonempty[of n] by simp
  have neq: "CHR ''-'' # str_nat m \<noteq> str_nat n" for m n
    using hd_nat[of n] by (metis list.sel(1))
  show ?thesis
  proof (cases "a < 0")
    case True
    show ?thesis
    proof (cases "b < 0")
      case True
      with \<open>a < 0\<close> eq have "nat (- a) = nat (- b)" by (auto simp: str_int_def dest: str_nat_inj)
      with True \<open>a < 0\<close> show ?thesis by simp
    next
      case False
      with True eq neq show ?thesis by (auto simp: str_int_def)
    qed
  next
    case False
    show ?thesis
    proof (cases "b < 0")
      case True
      with False eq neq[of "nat (- b)" "nat a"] show ?thesis by (auto simp: str_int_def)
    next
      case nb: False
      with False eq have "nat a = nat b" by (auto simp: str_int_def dest: str_nat_inj)
      with False nb show ?thesis by simp
    qed
  qed
qed

lemma str_int_no_underscore: "CHR ''_'' \<notin> set (str_int i)"
  using str_nat_chars by (auto simp: str_int_def)

lemma split_last_underscore:
  assumes "a @ ''_'' @ p = b @ ''_'' @ q" and "CHR ''_'' \<notin> set p" and "CHR ''_'' \<notin> set q"
  shows "a = b \<and> p = q"
proof -
  have "rev p @ CHR ''_'' # rev a = rev q @ CHR ''_'' # rev b"
    using arg_cong[OF assms(1), of rev] by simp
  moreover have "takeWhile (\<lambda>c. c \<noteq> CHR ''_'') (rev p @ CHR ''_'' # rev a) = rev p"
    using assms(2) by (auto simp: takeWhile_tail)
  moreover have "takeWhile (\<lambda>c. c \<noteq> CHR ''_'') (rev q @ CHR ''_'' # rev b) = rev q"
    using assms(3) by (auto simp: takeWhile_tail)
  ultimately have pq: "rev p = rev q" by simp
  with \<open>rev p @ CHR ''_'' # rev a = rev q @ CHR ''_'' # rev b\<close> have "rev a = rev b" by simp
  with pq show ?thesis by simp
qed

lemma chunk_id_eq_iff: "chunk_id a = chunk_id b \<longleftrightarrow> chunk_key a = chunk_key b"
proof
  assume eq: "chunk_id a = chunk_id b"
  have 1: "(document_name a @ ''_'' @ str_int (page_number a)) @ ''_'' @ str_int (chunk_index a)
         = (document_name b @ ''_'' @ str_int (page_number b)) @ ''_'' @ str_int (chunk_index b)"
    using eq by (simp add: chunk_id_def)
  from split_last_underscore[OF 1 str_int_no_underscore str_int_no_underscore]
  have 2: "document_name a @ ''_'' @ str_int (page_number a) = document_name b @ ''_'' @ str_int (page_number b)"
    and 3: "str_int (chunk_index a) = str_int (chunk_index b)" by blast+
  from split_last_underscore[OF 2 str_int_no_underscore str_int_no_underscore]
  have "document_name a = document_name b" "str_int (page_number a) = str_int (page_number b)" by blast+
  with 3 show "chunk_key a = chunk_key b" by (simp add: chunk_key_def str_int_inj)
next
  assume "chunk_key a = chunk_key b"
  then show "chunk_id a = chunk_id b" by (simp add: chunk_key_def chunk_id_def)
qed

subsection \<open>The multi-query merge\<close>

lemma merge_hits_inv:
  assumes "snd acc = set (map chunk_id (fst acc))" and "distinct (map chunk_id (fst acc))"
  shows "snd (merge_hits hits acc) = set (map chunk_id (fst (merge_hits hits acc)))
         \<and> distinct (map chunk_id (fst (merge_hits hits acc)))"
  using assms
proof (induction hits acc rule: merge_hits.induct)
  case (1 acc)
  then show ?case by simp
next
  case (2 chunk rest all_chunks seen_ids)
  show ?case
  proof (cases "chunk_id chunk \<in> seen_ids")
    case True
    with 2 show ?thesis by simp
  next
    case False
    with 2 show ?thesis by auto
  qed
qed

lemma merge_hits_subset:
  "set (fst (merge_hits hits acc)) \<subseteq> set hits \<union> set (fst acc)"
proof (induction hits acc rule: merge_hits.induct)
  case (1 acc)
  then show ?case by simp
next
  case (2 chunk rest all_chunks seen_ids)
  then show ?case by (cases "chunk_id chunk \<in> seen_ids") auto
qed

lemma merge_hits_filter:
  assumes "seen = set (map chunk_id cs)"
  shows "filter (\<lambda>c. chunk_id c = i) (fst (merge_hits hits (cs, seen))) =
         (if i \<in> seen then filter (\<lambda>c. chunk_id c = i) cs
          else (case find (\<lambda>c. chunk_id c = i) hits of None \<Rightarrow> [] | Some f \<Rightarrow> [f]))"
  using assms
proof (induction hits arbitrary: cs seen)
  case Nil
  then show ?case by (auto simp: filter_empty_conv)
next
  case (Cons h hits)
  show ?case
  proof (cases "chunk_id h \<in> seen")
    case True
    with Cons.IH[OF Cons.prems] Cons.prems show ?thesis by auto
  next
    case False
    have s: "insert (chunk_id h) seen = set (map chunk_id (cs @ [h]))" using Cons.prems by simp
    have ne: "i \<notin> seen \<Longrightarrow> filter (\<lambda>c. chunk_id c = i) cs = []"
      using Cons.prems by (auto simp: filter_empty_conv)
    from False Cons.IH[OF s] ne show ?thesis by auto
  qed
qed

lemma query_loop_inv:
  assumes "snd acc = set (map chunk_id (fst acc))" and "distinct (map chunk_id (fst acc))"
  shows "snd (fst (query_loop srv qs k m acc s)) = set (map chunk_id (fst (fst (query_loop srv qs k m acc s))))
         \<and> distinct (map chunk_id (fst (fst (query_loop srv qs k m acc s))))"
  using assms
proof (induction qs arbitrary: acc s)
  case Nil
  then show ?case by simp
next
  case (Cons q qs)
  obtain hits s1 where h: "search_documents srv q k m COLLECTION_NAME s = (hits, s1)"
    by (cases "search_documents srv q k m COLLECTION_NAME s")
  from merge_hits_inv[OF Cons.prems, of hits]
  have "snd (merge_hits hits acc) = set (map chunk_id (fst (merge_hits hits acc)))"
       "distinct (map chunk_id (fst (merge_hits hits acc)))" by blast+
  from Cons.IH[OF this, of s1] show ?case by (simp add: h)
qed

lemma distinct_id_key:
  assumes "distinct (map chunk_id cs)" shows "distinct (map chunk_key cs)"
proof -
  have "inj_on chunk_id (set cs)" "distinct cs" using assms by (simp_all add: distinct_map)
  then have "inj_on chunk_key (set cs)"
    by (auto simp: inj_on_def chunk_id_eq_iff)
  with \<open>distinct cs\<close> show ?thesis by (simp add: distinct_map)
qed

lemma sorted_desc: "sorted_wrt (\<lambda>a b. similarity_score b \<le> similarity_score a) (sort_by_score_desc cs)"
proof -
  have "sorted (map (\<lambda>x. - similarity_score x) (sort_by_score_desc cs))"
    unfolding sort_by_score_desc_def by (rule sorted_sort_key)
  then show ?thesis by (simp add: sorted_map)
qed

lemma distinct_sorted_desc:
  "distinct (map f (sort_by_score_desc cs)) = distinct (map f cs)"
  by (simp add: sort_by_score_desc_def distinct_map)

lemma multi_query_chunks:
  "chunks (fst (multi_query_retrieval srv qs k m s))
     = sort_by_score_desc (fst (fst (query_loop srv qs k m ([], {}) s)))"
  by (auto simp: multi_query_retrieval_def Let_def split: prod.splits)

text \<open>
  C2. For every list of queries, per-query cap and minimum score (and whatever the
  collaborators answer), the chunks of \<open>multi_query_retrieval\<close> have pairwise distinct
  identifiers (document name, page number, chunk index) and are sorted by similarity
  score, non-increasing.
\<close>

theorem multi_query_distinct_sorted:
  "distinct (map chunk_key (chunks (fst (multi_query_retrieval srv qs k m s))))
   \<and> sorted_wrt (\<lambda>a b. similarity_score b \<le> similarity_score a)
        (chunks (fst (multi_query_retrieval srv qs k m s)))"
proof -
  have "distinct (map chunk_id (fst (fst (query_loop srv qs k m ([], {}) s))))"
    using query_loop_inv[of "([], {})" srv qs k m s] by simp
  then have "distinct (map chunk_key (fst (fst (query_loop srv qs k m ([], {}) s))))"
    by (rule distinct_id_key)
  then show ?thesis by (simp add: multi_query_chunks distinct_sorted_desc sorted_desc)
qed

subsection \<open>Evaluation on the concrete index\<close>

lemma str_nat_digit: "n < 10 \<Longrightarrow> str_nat n = [''0123456789'' ! n]"
  by (subst str_nat.simps) simp

lemmas search_eval =
  search_documents_def get_collection_def py_index_def first_row_def Let_def

lemma search_srv0_low:
  "fst (search_documents srv0 ''stock accuracy'' 3 (3 / 10) COLLECTION_NAME s0) = [hit0 (7 / 10)]"
  by (simp add: search_eval srv0_def s0_def coll0_def md0_def hit0_def)

lemma search_srv0_high:
  "fst (search_documents srv0 ''cycle counts'' 3 (3 / 10) COLLECTION_NAME s0) = [hit0 (9 / 10)]"
  by (simp add: search_eval srv0_def s0_def coll0_def md0_def hit0_def)

lemma multi_srv0_low_first:
  "chunks (fst (multi_query_retrieval srv0 [''stock accuracy'', ''cycle counts''] 3 (3 / 10) s0))
     = [hit0 (7 / 10)]"
  by (simp add: multi_query_retrieval_def sort_by_score_desc_def search_eval srv0_def s0_def
      coll0_def md0_def hit0_def chunk_id_def str_int_def str_nat_digit)

lemma select_rows1: "select_chunks (5 / 10) rows1 = [hit0 (9 / 10)]"
  by (simp add: rows1_def hit0_def md0_def)

lemma search_srv1:
  "fst (search_documents srv1 ''inventory accuracy'' 5 (5 / 10) COLLECTION_NAME s0) = [hit0 (9 / 10)]"
  by (simp add: search_eval srv1_def srv0_def s0_def coll1_def md0_def md1_def hit0_def)

lemma multi_srv1:
  "chunks (fst (multi_query_retrieval srv1 [''inventory accuracy''] 5 (5 / 10) s0)) = [hit0 (9 / 10)]"
  by (simp add: multi_query_retrieval_def sort_by_score_desc_def search_eval srv1_def srv0_def s0_def
      coll1_def md0_def md1_def hit0_def chunk_id_def str_int_def str_nat_digit)

subsection \<open>Which hit the merge keeps\<close>

text \<open>
  C3, as stated, fails. On the concrete index the query ``stock accuracy'' returns the
  chunk at score 0.7 and the query ``cycle counts'' returns the same chunk at score 0.9;
  with the queries in this order the merged result holds the one entry at score 0.7,
  not 0.9.
\<close>

theorem first_hit_wins_counterexample:
  "fst (search_documents srv0 ''stock accuracy'' 3 (3 / 10) COLLECTION_NAME s0) = [hit0 (7 / 10)]
   \<and> fst (search_documents srv0 ''cycle counts'' 3 (3 / 10) COLLECTION_NAME s0) = [hit0 (9 / 10)]
   \<and> chunk_key (hit0 (7 / 10)) = chunk_key (hit0 (9 / 10))
   \<and> map similarity_score
        (chunks (fst (multi_query_retrieval srv0 [''stock accuracy'', ''cycle counts''] 3 (3 / 10) s0)))
       = [7 / 10]
   \<and> (7 / 10 :: real) \<noteq> 9 / 10"
  by (simp add: search_srv0_low search_srv0_high multi_srv0_low_first chunk_key_def hit0_def)

lemma find_key_id:
  assumes "find (\<lambda>c. chunk_key c = K) hs = Some a"
  shows "find (\<lambda>c. chunk_id c = chunk_id a) hs = Some a"
proof -
  have "chunk_key a = K" using assms by (auto simp: find_Some_iff)
  then have "(\<lambda>c. chunk_id c = chunk_id a) = (\<lambda>c. chunk_key c = K)"
    by (auto simp: chunk_id_eq_iff)
  with assms show ?thesis by simp
qed

text \<open>
  C3, amended. When two queries each return a hit for the same chunk identifier, the
  merge holds exactly one entry for that identifier, and it is the hit of the query
  listed first, whatever the two scores are.
\<close>

theorem first_hit_wins:
  assumes "search_documents srv qa k m COLLECTION_NAME s = (ha, s1)"
    and "search_documents srv qb k m COLLECTION_NAME s1 = (hb, s2)"
    and "find (\<lambda>c. chunk_key c = K) ha = Some a"
    and "find (\<lambda>c. chunk_key c = K) hb = Some b"
  shows "filter (\<lambda>c. chunk_key c = K) (chunks (fst (multi_query_retrieval srv [qa, qb] k m s))) = [a]"
proof -
  have Ka: "chunk_key a = K" using assms(3) by (auto simp: find_Some_iff)
  have keyid: "(\<lambda>c. chunk_key c = K) = (\<lambda>c. chunk_id c = chunk_id a)"
    using Ka by (auto simp: chunk_id_eq_iff)
  obtain cs1 seen1 where acc1: "merge_hits ha ([], {}) = (cs1, seen1)"
    by (cases "merge_hits ha ([], {})")
  have inv1: "seen1 = set (map chunk_id cs1)"
    using merge_hits_inv[of "([], {})" ha] acc1 by simp
  have f1: "filter (\<lambda>c. chunk_id c = chunk_id a) cs1 = [a]"
    using merge_hits_filter[of "{}" "[]" "chunk_id a" ha] find_key_id[OF assms(3)] acc1 by simp
  then have "a \<in> set (filter (\<lambda>c. chunk_id c = chunk_id a) cs1)" by simp
  then have "a \<in> set cs1" by simp
  then have seen: "chunk_id a \<in> seen1" using inv1 by simp
  have "filter (\<lambda>c. chunk_id c = chunk_id a) (fst (merge_hits hb (cs1, seen1))) = [a]"
    using merge_hits_filter[OF inv1, of "chunk_id a" hb] seen f1 by simp
  moreover have "fst (fst (query_loop srv [qa, qb] k m ([], {}) s)) = fst (merge_hits hb (cs1, seen1))"
    by (simp add: assms(1,2) acc1)
  ultimately have "filter (\<lambda>c. chunk_id c = chunk_id a)
       (sort_by_score_desc (fst (fst (query_loop srv [qa, qb] k m ([], {}) s)))) = [a]"
    by (simp add: sort_by_score_desc_def filter_sort)
  then show ?thesis by (simp add: multi_query_chunks keyid)
qed

theorem first_hit_wins_witness:
  "filter (\<lambda>c. chunk_key c = (''ops_guide.pdf'', 4, 1))
     (chunks (fst (multi_query_retrieval srv0 [''stock accuracy'', ''cycle counts''] 3 (3 / 10) s0)))
     = [hit0 (7 / 10)]
   \<and> filter (\<lambda>c. chunk_key c = (''ops_guide.pdf'', 4, 1))
     (chunks (fst (multi_query_retrieval srv0 [''cycle counts'', ''stock accuracy''] 3 (3 / 10) s0)))
     = [hit0 (9 / 10)]"
proof -
  let ?K = "(''ops_guide.pdf'', 4::int, 1::int)"
  let ?sa = "snd (search_documents srv0 ''stock accuracy'' 3 (3 / 10) COLLECTION_NAME s0)"
  let ?sb = "snd (search_documents srv0 ''cycle counts'' 3 (3 / 10) COLLECTION_NAME s0)"
  have a1: "search_documents srv0 ''stock accuracy'' 3 (3 / 10) COLLECTION_NAME s0 = ([hit0 (7 / 10)], ?sa)"
    using search_srv0_low by (simp add: prod_eq_iff)
  have b1: "search_documents srv0 ''cycle counts'' 3 (3 / 10) COLLECTION_NAME s0 = ([hit0 (9 / 10)], ?sb)"
    using search_srv0_high by (simp add: prod_eq_iff)
  have a2: "search_documents srv0 ''stock accuracy'' 3 (3 / 10) COLLECTION_NAME ?sb
              = ([hit0 (7 / 10)], snd (search_documents srv0 ''stock accuracy'' 3 (3 / 10) COLLECTION_NAME ?sb))"
    by (simp add: search_eval srv0_def s0_def coll0_def md0_def hit0_def prod_eq_iff)
  have b2: "search_documents srv0 ''cycle counts'' 3 (3 / 10) COLLECTION_NAME ?sa
              = ([hit0 (9 / 10)], snd (search_documents srv0 ''cycle counts'' 3 (3 / 10) COLLECTION_NAME ?sa))"
    by (simp add: search_eval srv0_def s0_def coll0_def md0_def hit0_def prod_eq_iff)
  have fa: "find (\<lambda>c. chunk_key c = ?K) [hit0 (7 / 10)] = Some (hit0 (7 / 10))"
    by (simp add: chunk_key_def hit0_def)
  have fb: "find (\<lambda>c. chunk_key c = ?K) [hit0 (9 / 10)] = Some (hit0 (9 / 10))"
    by (simp add: chunk_key_def hit0_def)
  from first_hit_wins[OF a1 b2 fa fb] first_hit_wins[OF b1 a2 fb fa] show ?thesis by blast
qed

subsection \<open>The threshold gate\<close>

lemma select_chunks_gate:
  "c \<in> set (select_chunks m rows) \<Longrightarrow>
     m \<le> similarity_score c \<and> (\<exists>row \<in> set rows. similarity_score c = 1 - snd (snd row))"
proof (induction m rows rule: select_chunks.induct)
  case (1 m)
  then show ?case by simp
next
  case (2 m doc md distance rows)
  show ?case
  proof (cases "1 - distance < m")
    case True
    with 2 show ?thesis by (auto simp: Let_def)
  next
    case False
    with 2 show ?thesis by (auto simp: Let_def)
  qed
qed

lemma search_documents_gate:
  "c \<in> set (fst (search_documents srv q k m cn s)) \<Longrightarrow> m \<le> similarity_score c"
  by (auto simp: search_documents_def Let_def dest: select_chunks_gate
      split: prod.splits option.splits sum.splits if_splits)

lemma retrieve_with_context_chunks:
  "chunks (fst (retrieve_with_context srv q k m s)) = fst (search_documents srv q k m COLLECTION_NAME s)"
  by (auto simp: retrieve_with_context_def Let_def split: prod.splits)

lemma query_loop_gate:
  assumes "\<forall>c \<in> set (fst acc). m \<le> similarity_score c"
  shows "\<forall>c \<in> set (fst (fst (query_loop srv qs k m acc s))). m \<le> similarity_score c"
  using assms
proof (induction qs arbitrary: acc s)
  case Nil
  then show ?case by simp
next
  case (Cons q qs)
  obtain hits s1 where h: "search_documents srv q k m COLLECTION_NAME s = (hits, s1)"
    by (cases "search_documents srv q k m COLLECTION_NAME s")
  have "\<forall>c \<in> set hits. m \<le> similarity_score c"
    using search_documents_gate[of _ srv q k m COLLECTION_NAME s] h by simp
  with Cons.prems merge_hits_subset[of hits acc]
  have "\<forall>c \<in> set (fst (merge_hits hits acc)). m \<le> similarity_score c" by blast
  from Cons.IH[OF this, of s1] show ?case by (simp add: h)
qed

text \<open>
  C4. Every chunk that the loop of \<open>search_documents\<close> keeps has similarity
  \<open>1 - distance\<close> for a returned row and similarity at least \<open>min_score\<close>; so has every
  chunk in the result of \<open>search_documents\<close>, of \<open>retrieve_with_context\<close> and of
  \<open>multi_query_retrieval\<close> run with that \<open>min_score\<close>.
\<close>

theorem threshold_gate:
  "(\<forall>c \<in> set (select_chunks m rows).
       m \<le> similarity_score c \<and> (\<exists>row \<in> set rows. similarity_score c = 1 - snd (snd row)))
   \<and> (\<forall>c \<in> set (fst (search_documents srv q k m cn s)). m \<le> similarity_score c)
   \<and> (\<forall>c \<in> set (chunks (fst (retrieve_with_context srv q k m s))). m \<le> similarity_score c)
   \<and> (\<forall>c \<in> set (chunks (fst (multi_query_retrieval srv qs k m s))). m \<le> similarity_score c)"
proof -
  have "\<forall>c \<in> set (fst (fst (query_loop srv qs k m ([], {}) s))). m \<le> similarity_score c"
    by (rule query_loop_gate) simp
  then have "\<forall>c \<in> set (chunks (fst (multi_query_retrieval srv qs k m s))). m \<le> similarity_score c"
    by (simp add: multi_query_chunks sort_by_score_desc_def)
  then show ?thesis
    using select_chunks_gate[of _ m rows] search_documents_gate[of _ srv q k m]
    by (simp add: retrieve_with_context_chunks)
qed

theorem threshold_gate_witness:
  "hit0 (9 / 10) \<in> set (select_chunks (5 / 10) rows1)
   \<and> hit0 (9 / 10) \<in> set (fst (search_documents srv1 ''inventory accuracy'' 5 (5 / 10) COLLECTION_NAME s0))
   \<and> hit0 (9 / 10) \<in> set (chunks (fst (retrieve_with_context srv1 ''inventory accuracy'' 5 (5 / 10) s0)))
   \<and> hit0 (9 / 10) \<in> set (chunks (fst (multi_query_retrieval srv1 [''inventory accuracy''] 5 (5 / 10) s0)))
   \<and> (5 / 10 :: real) \<le> similarity_score (hit0 (9 / 10))
   \<and> (\<exists>row \<in> set rows1. similarity_score (hit0 (9 / 10)) = 1 - snd (snd row))"
proof -
  have 1: "hit0 (9 / 10) \<in> set (select_chunks (5 / 10) rows1)" using select_rows1 by simp
  have 2: "hit0 (9 / 10) \<in> set (fst (search_documents srv1 ''inventory accuracy'' 5 (5 / 10) COLLECTION_NAME s0))"
    using search_srv1 by simp
  have 3: "hit0 (9 / 10) \<in> set (chunks (fst (retrieve_with_context srv1 ''inventory accuracy'' 5 (5 / 10) s0)))"
    using search_srv1 by (simp add: retrieve_with_context_chunks)
  have 4: "hit0 (9 / 10) \<in> set (chunks (fst (multi_query_retrieval srv1 [''inventory accuracy''] 5 (5 / 10) s0)))"
    using multi_srv1 by simp
  from threshold_gate[of "5 / 10" rows1 srv1 "''inventory accuracy''" 5 COLLECTION_NAME s0 "[''inventory accuracy'']"] 1 2 3 4
  show ?thesis by blast
qed

subsection \<open>Absence of evidence as data\<close>

lemma search_no_collection:
  "collection_cache s cn = None \<Longrightarrow> client_get_collection srv cn = Inl e \<Longrightarrow>
     fst (search_documents srv q k m cn s) = []"
  by (simp add: search_documents_def get_collection_def Let_def)

lemma search_no_embedding:
  "generate_embeddings srv [q] EMBEDDING_MODEL = Inl e \<Longrightarrow> fst (search_documents srv q k m cn s) = []"
  by (simp add: search_documents_def Let_def split: prod.splits option.splits)

lemma search_no_index:
  "fst (get_collection srv cn s) = Some coll \<Longrightarrow>
   generate_embeddings srv [q] EMBEDDING_MODEL = Inr (emb # embs) \<Longrightarrow>
   coll emb k = Inl e \<Longrightarrow> fst (search_documents srv q k m cn s) = []"
  by (auto simp: search_documents_def py_index_def Let_def split: prod.splits option.splits)

text \<open>
  C5. \<open>search_documents\<close> returns the empty list when the collection is missing, when
  the embedding call fails and when the index query fails; \<open>retrieve_with_context\<close>
  has \<open>found\<close> true exactly when the search yields a chunk, and otherwise empty chunks,
  empty citations and the fixed message.
\<close>

theorem absence_is_data:
  "(collection_cache s cn = None \<and> client_get_collection srv cn = Inl e
       \<longrightarrow> fst (search_documents srv q k m cn s) = [])
   \<and> (generate_embeddings srv [q] EMBEDDING_MODEL = Inl e
       \<longrightarrow> fst (search_documents srv q k m cn s) = [])
   \<and> (fst (get_collection srv cn s) = Some coll
        \<and> generate_embeddings srv [q] EMBEDDING_MODEL = Inr (emb # embs) \<and> coll emb k = Inl e
       \<longrightarrow> fst (search_documents srv q k m cn s) = [])
   \<and> (found (fst (retrieve_with_context srv q k m s))
        \<longleftrightarrow> fst (search_documents srv q k m COLLECTION_NAME s) \<noteq> [])
   \<and> (fst (search_documents srv q k m COLLECTION_NAME s) = []
       \<longrightarrow> chunks (fst (retrieve_with_context srv q k m s)) = []
           \<and> citations (fst (retrieve_with_context srv q k m s)) = []
           \<and> message (fst (retrieve_with_context srv q k m s)) =
               ''Not found in sources. The available documents do not contain information to answer this query.'')"
proof -
  have "found (fst (retrieve_with_context srv q k m s))
        \<longleftrightarrow> fst (search_documents srv q k m COLLECTION_NAME s) \<noteq> []"
    by (auto simp: retrieve_with_context_def Let_def split: prod.splits)
  moreover have "fst (search_documents srv q k m COLLECTION_NAME s) = []
       \<longrightarrow> chunks (fst (retrieve_with_context srv q k m s)) = []
           \<and> citations (fst (retrieve_with_context srv q k m s)) = []
           \<and> message (fst (retrieve_with_context srv q k m s)) =
               ''Not found in sources. The available documents do not contain information to answer this query.''"
    by (auto simp: retrieve_with_context_def Let_def split: prod.splits)
  ultimately show ?thesis
    using search_no_collection[of s cn srv e q k m] search_no_embedding[of srv q e k m cn s]
      search_no_index[of srv cn s coll q emb embs k e m]
    by blast
qed

theorem absence_is_data_witness:
  "fst (search_documents srv_no_collection ''inventory accuracy'' 5 (5 / 10) COLLECTION_NAME s0) = []
   \<and> fst (search_documents srv_no_embedding ''inventory accuracy'' 5 (5 / 10) COLLECTION_NAME s0) = []
   \<and> fst (search_documents srv_no_index ''inventory accuracy'' 5 (5 / 10) COLLECTION_NAME s0) = []
   \<and> fst (search_documents srv_weak ''inventory accuracy'' 5 (5 / 10) COLLECTION_NAME s0) = []
   \<and> \<not> found (fst (retrieve_with_context srv_weak ''inventory accuracy'' 5 (5 / 10) s0))
   \<and> message (fst (retrieve_with_context srv_weak ''inventory accuracy'' 5 (5 / 10) s0)) =
        ''Not found in sources. The available documents do not contain information to answer this query.''
   \<and> found (fst (retrieve_with_context srv1 ''inventory accuracy'' 5 (5 / 10) s0))"
proof -
  let ?q = "''inventory accuracy''"
  let ?e = "Failure ''no such collection''"
  have c: "collection_cache s0 COLLECTION_NAME = None
           \<and> client_get_collection srv_no_collection COLLECTION_NAME = Inl ?e"
    by (simp add: s0_def srv_no_collection_def srv0_def)
  have e: "generate_embeddings srv_no_embedding [?q] EMBEDDING_MODEL = Inl (Failure ''Failed to generate embeddings'')"
    by (simp add: srv_no_embedding_def srv0_def)
  have i: "fst (get_collection srv_no_index COLLECTION_NAME s0) = Some (\<lambda>e n. Inl (Failure ''index unavailable''))
           \<and> generate_embeddings srv_no_index [?q] EMBEDDING_MODEL = Inr ([0, 1] # [])
           \<and> (\<lambda>e n. Inl (Failure ''index unavailable'')) [0, 1] (5::int) = (Inl (Failure ''index unavailable'') :: exn + QueryResult)"
    by (simp add: get_collection_def s0_def srv_no_index_def srv0_def)
  have w: "fst (search_documents srv_weak ?q 5 (5 / 10) COLLECTION_NAME s0) = []"
    by (simp add: search_eval srv_weak_def srv0_def s0_def coll_weak_def)
  have f: "fst (search_documents srv1 ?q 5 (5 / 10) COLLECTION_NAME s0) \<noteq> []"
    using search_srv1 by simp
  from absence_is_data[where s = s0 and cn = COLLECTION_NAME and srv = srv_no_collection and e = ?e
      and q = ?q and k = 5 and m = "5 / 10"] c
  have 1: "fst (search_documents srv_no_collection ?q 5 (5 / 10) COLLECTION_NAME s0) = []" by blast
  from absence_is_data[where s = s0 and cn = COLLECTION_NAME and srv = srv_no_embedding
      and e = "Failure ''Failed to generate embeddings''" and q = ?q and k = 5 and m = "5 / 10"] e
  have 2: "fst (search_documents srv_no_embedding ?q 5 (5 / 10) COLLECTION_NAME s0) = []" by blast
  from absence_is_data[where s = s0 and cn = COLLECTION_NAME and srv = srv_no_index
      and e = "Failure ''index unavailable''" and q = ?q and k = 5 and m = "5 / 10"
      and coll = "\<lambda>e n. Inl (Failure ''index unavailable'')" and emb = "[0, 1]" and embs = "[]"] i
  have 3: "fst (search_documents srv_no_index ?q 5 (5 / 10) COLLECTION_NAME s0) = []" by blast
  from absence_is_data[where s = s0 and cn = COLLECTION_NAME and srv = srv_weak and q = ?q
      and k = 5 and m = "5 / 10"] w
  have 4: "\<not> found (fst (retrieve_with_context srv_weak ?q 5 (5 / 10) s0))
     \<and> message (fst (retrieve_with_context srv_weak ?q 5 (5 / 10) s0)) =
        ''Not found in sources. The available documents do not contain information to answer this query.''"
    by blast
  from absence_is_data[where s = s0 and cn = COLLECTION_NAME and srv = srv1 and q = ?q
      and k = 5 and m = "5 / 10"] f
  have 5: "found (fst (retrieve_with_context srv1 ?q 5 (5 / 10) s0))" by blast
  from 1 2 3 w 4 5 show ?thesis by blast
qed

section \<open>The multi-query search tool\<close>

lemma not_found_not_in_literal:
  "\<not> str_contains ''No valid queries provided.'' ''Not found in sources''"
  by (simp add: str_contains_def)

text \<open>
  C10. When every comma-separated component of the input is empty after stripping, the
  multi-query tool returns the literal ``No valid queries provided.'', leaves the module
  state as it was (no request is sent to a collaborator), and the literal does not
  contain the sentinel ``Not found in sources''.
\<close>

theorem no_valid_queries:
  assumes "\<forall>q \<in> set (split_on CHR '','' qs). strip q = []"
  shows "multi_search_retail_documents rt srv qs s = (''No valid queries provided.'', s)
         \<and> requests (snd (multi_search_retail_documents rt srv qs s)) = requests s
         \<and> \<not> str_contains ''No valid queries provided.'' ''Not found in sources''"
proof -
  have "filter (\<lambda>q. strip q \<noteq> []) (split_on CHR '','' qs) = []"
    using assms by (simp add: filter_empty_conv)
  then have "multi_search_retail_documents rt srv qs s = (''No valid queries provided.'', s)"
    by (simp add: multi_search_retail_documents_def)
  with not_found_not_in_literal show ?thesis by simp
qed

theorem no_valid_queries_witness:
  "split_on CHR '','' [] = [[]]
   \<and> split_on CHR '','' ''   '' = [''   ''] \<and> strip ''   '' = []
   \<and> split_on CHR '','' '',,'' = [[], [], []]
   \<and> multi_search_retail_documents rt_rev srv0 [] s0 = (''No valid queries provided.'', s0)
   \<and> multi_search_retail_documents rt_rev srv0 ''   '' s0 = (''No valid queries provided.'', s0)
   \<and> multi_search_retail_documents rt_rev srv0 '',,'' s0 = (''No valid queries provided.'', s0)"
proof -
  have a: "\<forall>q \<in> set (split_on CHR '','' []). strip q = []" by (simp add: strip_def)
  have b: "\<forall>q \<in> set (split_on CHR '','' ''   ''). strip q = []" by (simp add: strip_def isspace_def)
  have c: "\<forall>q \<in> set (split_on CHR '','' '',,''). strip q = []" by (simp add: strip_def)
  have d: "split_on CHR '','' [] = [[]] \<and> split_on CHR '','' ''   '' = [''   '']
           \<and> strip ''   '' = [] \<and> split_on CHR '','' '',,'' = [[], [], []]"
    by (simp add: strip_def isspace_def)
  from no_valid_queries[OF a, of rt_rev srv0 s0] no_valid_queries[OF b, of rt_rev srv0 s0]
    no_valid_queries[OF c, of rt_rev srv0 s0] d
  show ?thesis by blast
qed

section \<open>The citations artifact\<close>

text \<open>
  \<open>list(dict.fromkeys(citations))\<close> is deduplication in first-seen order, so the
  \<open>citations\<close> entry of \<open>retrieve_with_context\<close> and of \<open>multi_query_retrieval\<close>
  holds each citation of the chunks once, at the place of its first occurrence.
  \<open>format_citations\<close> numbers each citation once, in the order the runtime iterates
  the set.
\<close>

lemma set_first_seen: "set (first_seen xs) = set xs"
  by (induction xs rule: first_seen.induct) auto

lemma distinct_first_seen: "distinct (first_seen xs)"
  by (induction xs rule: first_seen.induct) (auto simp: set_first_seen)

lemma fold_fromkeys:
  "fold (\<lambda>k d. if k \<in> set d then d else d @ [k]) xs d
     = d @ first_seen (filter (\<lambda>x. x \<notin> set d) xs)"
proof (induction xs arbitrary: d)
  case Nil
  then show ?case by simp
next
  case (Cons x xs)
  show ?case
  proof (cases "x \<in> set d")
    case True
    then show ?thesis by (simp add: Cons.IH)
  next
    case False
    have "filter (\<lambda>y. y \<notin> set (d @ [x])) xs = filter (\<lambda>y. y \<noteq> x) (filter (\<lambda>y. y \<notin> set d) xs)"
      by (induction xs) auto
    with False show ?thesis by (simp add: Cons.IH)
  qed
qed

lemma dict_fromkeys_first_seen: "dict_fromkeys xs = first_seen xs"
  by (simp add: dict_fromkeys_def fold_fromkeys)

lemma retrieve_with_context_citations:
  "citations (fst (retrieve_with_context srv q k m s))
     = first_seen (map citation (chunks (fst (retrieve_with_context srv q k m s))))"
  by (auto simp: retrieve_with_context_def Let_def dict_fromkeys_first_seen split: prod.splits)

lemma multi_query_citations:
  "citations (fst (multi_query_retrieval srv qs k m s))
     = first_seen (map citation (chunks (fst (multi_query_retrieval srv qs k m s))))"
  by (auto simp: multi_query_retrieval_def Let_def dict_fromkeys_first_seen split: prod.splits)

lemma unique_citations_once:
  "set_contract rt \<Longrightarrow>
     distinct (unique_citations rt cs) \<and> set (unique_citations rt cs) = set (map citation cs)"
  by (simp add: set_contract_def unique_citations_def)

lemma set_contract_rt_rev: "set_contract rt_rev"
  by (simp add: set_contract_def rt_rev_def dict_fromkeys_first_seen set_first_seen distinct_first_seen)

text \<open>
  C6 at a failing input. \<open>format_citations\<close> builds its list with \<open>list(set(...))\<close>.
  For the two chunks below, cited in the order ops_guide then returns_playbook, a runtime
  that iterates the set in the other order (as CPython does for these two strings under
  hash seed 0) numbers returns_playbook first: each citation appears once, but not in
  first-seen order.
\<close>

theorem format_citations_not_first_seen:
  "set_contract rt_rev
   \<and> first_seen (map citation [hit0 (9 / 10), hit1 (8 / 10)])
       = [''ops_guide.pdf, Page 4, Chunk 1'', ''returns_playbook.pdf, Page 2, Chunk 0'']
   \<and> unique_citations rt_rev [hit0 (9 / 10), hit1 (8 / 10)]
       = [''returns_playbook.pdf, Page 2, Chunk 0'', ''ops_guide.pdf, Page 4, Chunk 1'']
   \<and> format_citations rt_rev [hit0 (9 / 10), hit1 (8 / 10)]
       = ''1. returns_playbook.pdf, Page 2, Chunk 0'' @ [CHR 0x0A] @ ''2. ops_guide.pdf, Page 4, Chunk 1''"
  using set_contract_rt_rev
  by (simp add: format_citations_def unique_citations_def rt_rev_def dict_fromkeys_def hit0_def hit1_def
      citation_line_def str_nat_digit enumerate_eq_zip)

section \<open>The schema of the verification report\<close>

text \<open>
  C7, as stated, fails. A report with verdict FAIL and all three corrected fields null
  passes validation, and so does one with verdict PASS and a corrected summary.
\<close>

theorem corrections_not_enforced_counterexample:
  "validate_VerificationReport fields_fail = Inr report_fail
   \<and> overall_verdict report_fail \<noteq> ''PASS''
   \<and> corrected_executive_summary report_fail = None
   \<and> corrected_client_email report_fail = None
   \<and> corrected_action_items report_fail = None
   \<and> validate_VerificationReport fields_pass = Inr report_pass
   \<and> overall_verdict report_pass = ''PASS''
   \<and> corrected_executive_summary report_pass \<noteq> None"
  by (simp add: validate_VerificationReport_def fields_fail_def report_fail_def fields_pass_def report_pass_def)

text \<open>
  C7, amended. Validation rejects a report exactly when one of the four required fields
  is missing; a report with its required fields is accepted with the three corrected
  fields as given, present or null, whatever the verdict.
\<close>

theorem validation_ignores_verdict:
  "((\<exists>e. validate_VerificationReport f = Inl e) \<longleftrightarrow>
      given_overall_verdict f = None \<or> given_verified_claims f = None
      \<or> given_unsupported_claims f = None \<or> given_suggestions f = None)
   \<and> (given_overall_verdict f = Some v \<and> given_verified_claims f = Some vc
        \<and> given_unsupported_claims f = Some uc \<and> given_suggestions f = Some sg \<longrightarrow>
       validate_VerificationReport f =
         Inr \<lparr> overall_verdict = v, verified_claims = vc, unsupported_claims = uc, suggestions = sg,
               corrected_executive_summary = given_corrected_executive_summary f,
               corrected_client_email = given_corrected_client_email f,
               corrected_action_items = given_corrected_action_items f \<rparr>)"
  by (auto simp: validate_VerificationReport_def split: option.splits)

theorem validation_ignores_verdict_witness:
  "validate_VerificationReport fields_fail = Inr report_fail
   \<and> validate_VerificationReport fields_pass = Inr report_pass
   \<and> (\<exists>e. validate_VerificationReport (fields_fail \<lparr> given_suggestions := None \<rparr>) = Inl e)"
proof -
  have a: "given_overall_verdict fields_fail = Some ''FAIL'' \<and> given_verified_claims fields_fail = Some []
        \<and> given_unsupported_claims fields_fail = Some [''Shrink fell by 30 percent.'']
        \<and> given_suggestions fields_fail = Some [''Remove the shrink figure.'']"
    by (simp add: fields_fail_def)
  have b: "given_overall_verdict fields_pass = Some ''PASS'' \<and> given_verified_claims fields_pass = Some []
        \<and> given_unsupported_claims fields_pass = Some []
        \<and> given_suggestions fields_pass = Some []"
    by (simp add: fields_pass_def)
  have c: "given_suggestions (fields_fail \<lparr> given_suggestions := None \<rparr>) = None" by simp
  from validation_ignores_verdict[of fields_fail] a
  have 1: "validate_VerificationReport fields_fail = Inr report_fail"
    by (simp add: report_fail_def fields_fail_def)
  from validation_ignores_verdict[of fields_pass] b
  have 2: "validate_VerificationReport fields_pass = Inr report_pass"
    by (simp add: report_pass_def fields_pass_def)
  from validation_ignores_verdict[of "fields_fail \<lparr> given_suggestions := None \<rparr>"] c
  have 3: "\<exists>e. validate_VerificationReport (fields_fail \<lparr> given_suggestions := None \<rparr>) = Inl e"
    by blast
  from 1 2 3 show ?thesis by blast
qed

section \<open>The merge of the Deliver stage\<close>

text \<open>
  C1. If the verdict is PASS the final deliverable is the draft; otherwise its executive
  summary, client email and action items are the report's corrected fields where these
  are present and the draft's fields where they are null, and the sources are the
  draft's.
\<close>

theorem deliver_merge:
  "(overall_verdict v = ''PASS'' \<longrightarrow> final_deliverable (deliver p n d v) = d)
   \<and> (overall_verdict v \<noteq> ''PASS'' \<longrightarrow>
        executive_summary (final_deliverable (deliver p n d v)) =
          (case corrected_executive_summary v of None \<Rightarrow> executive_summary d | Some c \<Rightarrow> c)
        \<and> client_email (final_deliverable (deliver p n d v)) =
          (case corrected_client_email v of None \<Rightarrow> client_email d | Some c \<Rightarrow> c)
        \<and> action_items (final_deliverable (deliver p n d v)) =
          (case corrected_action_items v of None \<Rightarrow> action_items d | Some c \<Rightarrow> c)
        \<and> sources (final_deliverable (deliver p n d v)) = sources d)
   \<and> draft (deliver p n d v) = d \<and> verification (deliver p n d v) = v"
  by (simp add: deliver_def merge_corrections_def)

theorem deliver_merge_witness:
  "overall_verdict report_summary_only \<noteq> ''PASS''
   \<and> executive_summary (final_deliverable (deliver () () draft0 report_summary_only))
       = ''Cycle counts raise accuracy.''
   \<and> client_email (final_deliverable (deliver () () draft0 report_summary_only)) = client_email draft0
   \<and> action_items (final_deliverable (deliver () () draft0 report_summary_only)) = action_items draft0
   \<and> overall_verdict report_pass = ''PASS''
   \<and> final_deliverable (deliver () () draft0 report_pass) = draft0"
proof -
  have a: "overall_verdict report_summary_only \<noteq> ''PASS''"
    by (simp add: report_summary_only_def report_fail_def)
  have b: "overall_verdict report_pass = ''PASS''" by (simp add: report_pass_def)
  from deliver_merge[of report_summary_only "()" "()" draft0] a
  have 1: "executive_summary (final_deliverable (deliver () () draft0 report_summary_only))
       = ''Cycle counts raise accuracy.''
     \<and> client_email (final_deliverable (deliver () () draft0 report_summary_only)) = client_email draft0
     \<and> action_items (final_deliverable (deliver () () draft0 report_summary_only)) = action_items draft0"
    by (simp add: report_summary_only_def report_fail_def)
  from deliver_merge[of report_pass "()" "()" draft0] b
  have 2: "final_deliverable (deliver () () draft0 report_pass) = draft0" by blast
  from a b 1 2 show ?thesis by blast
qed

end
